theory Spec2Isabelle
  imports Complex_Main "HOL-Library.AList"
begin

section \<open>HiDeF weaver: a shallow embedding of \<^verbatim>\<open>hidef/weaver.py\<close>\<close>

text \<open>
  Numbers. The containment indices and the edge weights are 64-bit floats in the source. A
  float is modelled by the rational number it stands for, and every floating-point operation
  of the source is the exact operation followed by the rounding function \<open>rnd\<close>, a
  parameter of the functions that compute with floats. For float64, \<open>rnd\<close> is rounding to
  the nearest double; it leaves every integer up to \<open>2^53\<close> as it is. A division of zero by
  zero, which numpy answers with \<^verbatim>\<open>nan\<close> and a warning, is the value \<open>NaN\<close>.
\<close>

subsection \<open>Errors\<close>

datatype error =
    ValueError string
  | UnboundLocalError string
  | IndexError
  | KeyError
  | TypeError
  | AttributeError
  | NetworkXError
  | NetworkXNoPath

subsection \<open>Containment indices\<close>

datatype npfloat = Fin rat | NaN

text \<open>\<^verbatim>\<open>np.count_nonzero(A, axis=1)\<close>, for one row.\<close>

definition count_nonzero :: "bool list \<Rightarrow> nat" where
  "count_nonzero a = length (filter (\<lambda>x. x) a)"

text \<open>\<^verbatim>\<open>A.astype(float)\<close>, for one row.\<close>

definition astype_float :: "bool list \<Rightarrow> rat list" where
  "astype_float a = map (\<lambda>x. if x then 1 else 0) a"

text \<open>
  One entry of \<^verbatim>\<open>A.dot(B.T)\<close>: the inner product of a row of A and a row of B, every
  product and every partial sum rounded. The order of the additions is the library's; the
  terms are zeros and ones, so that every partial sum is a natural number up to the row
  length, whatever the order.
\<close>

definition dot :: "(rat \<Rightarrow> rat) \<Rightarrow> rat list \<Rightarrow> rat list \<Rightarrow> rat" where
  "dot rnd a b = fold (\<lambda>(x, y) acc. rnd (acc + rnd (x * y))) (zip a b) 0"

text \<open>
  One entry of \<^verbatim>\<open>overlap / count[:, None]\<close>: the integer count is converted to a float
  and the quotient is rounded. A zero count gives \<^verbatim>\<open>nan\<close>: the overlap of a row without
  a true entry is zero (lemma \<open>dot_count_zero\<close> below), so \<^verbatim>\<open>inf\<close> does not arise.
\<close>

definition np_divide :: "(rat \<Rightarrow> rat) \<Rightarrow> rat \<Rightarrow> nat \<Rightarrow> npfloat" where
  "np_divide rnd x c =
     (let d = rnd (of_nat c) in if d = 0 then NaN else Fin (rnd (x / d)))"

text \<open>
  \<^verbatim>\<open>containment_indices_boolean(A, B)\<close>. The matrix product raises when the rows of A and
  of B differ in length.
\<close>

definition containment_indices_boolean ::
  "(rat \<Rightarrow> rat) \<Rightarrow> bool list list \<Rightarrow> bool list list \<Rightarrow> error + npfloat list list" where
  "containment_indices_boolean rnd A B =
     (if \<exists>a \<in> set A. \<exists>b \<in> set B. length a \<noteq> length b
      then Inl (ValueError ''shapes not aligned'')
      else Inr (map (\<lambda>a. map (\<lambda>b. np_divide rnd (dot rnd (astype_float a) (astype_float b))
                                            (count_nonzero a)) B) A))"

text \<open>
  A rounding function is exact up to N when it leaves every natural number up to N as it is;
  rounding to the nearest double is exact up to \<open>2^53\<close>.
\<close>

definition exact_upto :: "(rat \<Rightarrow> rat) \<Rightarrow> nat \<Rightarrow> bool" where
  "exact_upto rnd N \<longleftrightarrow> (\<forall>k \<le> N. rnd (of_nat k) = of_nat k)"

text \<open>The number of positions where two rows are both true.\<close>

definition overlap_count :: "bool list \<Rightarrow> bool list \<Rightarrow> nat" where
  "overlap_count a b = card {k. k < length a \<and> a ! k \<and> b ! k}"

text \<open>
  A rounding that shows in the results: \<open>quarters\<close> rounds down to a multiple of a quarter,
  which leaves every natural number as it is and turns a third into a quarter.
\<close>

definition quarters :: "rat \<Rightarrow> rat" where
  "quarters x = of_int \<lfloor>x * 4\<rfloor> / 4"

subsection \<open>The terminals setter\<close>

text \<open>
  The argument of \<^verbatim>\<open>set_terminals\<close>: \<^verbatim>\<open>None\<close>, a numpy array, or any other iterable.
\<close>

datatype 't terminals_arg = NoneArg | NdArray "'t list" | Iterable "'t list"

text \<open>
  The local variable \<^verbatim>\<open>terminals\<close> is bound in the \<^verbatim>\<open>None\<close> branch and in the branch
  for a value that is not an ndarray; no branch binds it for an ndarray. \<open>None\<close> is the
  unbound variable. The default labels \<^verbatim>\<open>np.arange(n)\<close> are produced by \<open>arange\<close>.
\<close>

definition set_terminals_local ::
  "(nat \<Rightarrow> 't list) \<Rightarrow> nat \<Rightarrow> 't terminals_arg \<Rightarrow> 't list option" where
  "set_terminals_local arange n_terminals v =
     (case v of
        NoneArg \<Rightarrow> Some (arange n_terminals)
      | Iterable xs \<Rightarrow> Some xs
      | NdArray xs \<Rightarrow> None)"

definition set_terminals ::
  "(nat \<Rightarrow> 't list) \<Rightarrow> nat \<Rightarrow> 't terminals_arg \<Rightarrow> error + 't list" where
  "set_terminals arange n_terminals v =
     (case set_terminals_local arange n_terminals v of
        None \<Rightarrow> Inl (UnboundLocalError ''terminals'')
      | Some terminals \<Rightarrow>
          if length terminals \<noteq> n_terminals
          then Inl (ValueError ''terminal nodes size mismatch'')
          else Inr terminals)"

subsection \<open>Directed graphs\<close>

text \<open>
  A node of the hierarchy is a tuple \<^verbatim>\<open>(i, k)\<close> of integers (a cluster, or the synthetic
  root \<^verbatim>\<open>(-1, 0)\<close>) or the label of a terminal. \<^verbatim>\<open>istuple\<close> tells them apart.
\<close>

datatype 't node = Internal int int | Terminal 't

fun istuple :: "'t node \<Rightarrow> bool" where
  "istuple (Internal i k) = True"
| "istuple (Terminal t) = False"

text \<open>
  \<^verbatim>\<open>networkx.DiGraph\<close>: the node dictionary, and for every node the dictionary of its
  successors (with the edge weight) and of its predecessors. All three keep insertion order, which
  the traversals of the source observe, so they are lists. The edge data of a predecessor entry is
  the object stored in the successor entry, so the weight is kept once. Of the node attributes
  only \<^verbatim>\<open>depth\<close> is read by the functions modelled here; \<^verbatim>\<open>index\<close>, \<^verbatim>\<open>level\<close> and
  \<^verbatim>\<open>label\<close> are written by \<^verbatim>\<open>_build\<close> and read only by the query methods.
\<close>

record 't graph =
  nodes :: "'t node list"
  succ :: "'t node \<Rightarrow> ('t node \<times> rat) list"
  pred :: "'t node \<Rightarrow> 't node list"
  depth :: "'t node \<Rightarrow> nat option"

definition empty_graph :: "'t graph" where
  "empty_graph = \<lparr>nodes = [], succ = (\<lambda>_. []), pred = (\<lambda>_. []), depth = (\<lambda>_. None)\<rparr>"

definition has_node :: "'t graph \<Rightarrow> 't node \<Rightarrow> bool" where
  "has_node G n \<longleftrightarrow> n \<in> set (nodes G)"

definition successors :: "'t graph \<Rightarrow> 't node \<Rightarrow> 't node list" where
  "successors G u = map fst (succ G u)"

definition predecessors :: "'t graph \<Rightarrow> 't node \<Rightarrow> 't node list" where
  "predecessors G v = pred G v"

definition has_edge :: "'t graph \<Rightarrow> 't node \<Rightarrow> 't node \<Rightarrow> bool" where
  "has_edge G u v \<longleftrightarrow> v \<in> set (successors G u)"

definition in_degree :: "'t graph \<Rightarrow> 't node \<Rightarrow> nat" where
  "in_degree G v = length (pred G v)"

definition out_degree :: "'t graph \<Rightarrow> 't node \<Rightarrow> nat" where
  "out_degree G u = length (succ G u)"

text \<open>
  \<^verbatim>\<open>G[u][v]['weight']\<close>. The source reads it only for an edge it has just found among the
  predecessors or successors of a node, where the entry exists.
\<close>

definition weight :: "'t graph \<Rightarrow> 't node \<Rightarrow> 't node \<Rightarrow> rat" where
  "weight G u v = (case map_of (succ G u) v of Some w \<Rightarrow> w | None \<Rightarrow> 0)"

definition edges :: "'t graph \<Rightarrow> ('t node \<times> 't node) list" where
  "edges G = concat (map (\<lambda>u. map (\<lambda>v. (u, v)) (successors G u)) (nodes G))"

definition add_node :: "'t graph \<Rightarrow> 't node \<Rightarrow> 't graph" where
  "add_node G n =
     (if n \<in> set (nodes G) then G
      else G\<lparr>nodes := nodes G @ [n], succ := (succ G)(n := []), pred := (pred G)(n := []),
              depth := (depth G)(n := None)\<rparr>)"

text \<open>
  \<^verbatim>\<open>G.add_edge(u, v, weight=w)\<close> adds the missing end points, u first, and sets the weight;
  an edge that exists keeps its place among the successors of u and the predecessors of v.
\<close>

definition add_edge :: "'t graph \<Rightarrow> 't node \<Rightarrow> 't node \<Rightarrow> rat \<Rightarrow> 't graph" where
  "add_edge G u v w =
     (let G' = add_node (add_node G u) v
      in G'\<lparr>succ := (succ G')(u := AList.update v w (succ G' u)),
             pred := (pred G')(v := (if u \<in> set (pred G' v) then pred G' v
                                      else pred G' v @ [u]))\<rparr>)"

definition del_edge :: "'t graph \<Rightarrow> 't node \<Rightarrow> 't node \<Rightarrow> 't graph" where
  "del_edge G u v =
     G\<lparr>succ := (succ G)(u := AList.delete v (succ G u)),
       pred := (pred G)(v := removeAll u (pred G v))\<rparr>"

text \<open>\<^verbatim>\<open>G.remove_edge(u, v)\<close> raises for an edge that is not there.\<close>

definition remove_edge :: "'t graph \<Rightarrow> 't node \<Rightarrow> 't node \<Rightarrow> error + 't graph" where
  "remove_edge G u v = (if has_edge G u v then Inr (del_edge G u v) else Inl NetworkXError)"

text \<open>\<^verbatim>\<open>G.remove_edges_from(ebunch)\<close> passes over an edge that is not there.\<close>

definition discard_edge :: "'t node \<times> 't node \<Rightarrow> 't graph \<Rightarrow> 't graph" where
  "discard_edge e G = (case e of (u, v) \<Rightarrow> if has_edge G u v then del_edge G u v else G)"

definition remove_edges_from :: "'t graph \<Rightarrow> ('t node \<times> 't node) list \<Rightarrow> 't graph" where
  "remove_edges_from G es = fold discard_edge es G"

text \<open>
  \<^verbatim>\<open>G.remove_node(n)\<close> for a node of the graph: the node, its attributes and every edge
  at it go. (networkx walks the successors and predecessors of n; the adjacency of a DiGraph
  is symmetric, so that n is deleted from every adjacency list it occurs in.)
\<close>

definition del_node :: "'t graph \<Rightarrow> 't node \<Rightarrow> 't graph" where
  "del_node G n =
     G\<lparr>nodes := removeAll n (nodes G),
       succ := (\<lambda>u. if u = n then [] else AList.delete n (succ G u)),
       pred := (\<lambda>v. if v = n then [] else removeAll n (pred G v)),
       depth := (depth G)(n := None)\<rparr>"

text \<open>\<^verbatim>\<open>get_root(T)\<close>: the first node of in-degree 0, in node order, or \<^verbatim>\<open>None\<close>.\<close>

definition get_root :: "'t graph \<Rightarrow> 't node option" where
  "get_root T = find (\<lambda>n. in_degree T n = 0) (nodes T)"

subsection \<open>Top-down traversal\<close>

text \<open>
  \<^verbatim>\<open>traverse_topdown(T)\<close> in its default breadth mode, collected into a list as \<^verbatim>\<open>prune\<close>
  does. \<^verbatim>\<open>T.successors(node)\<close> raises for a node that is not in the graph; this is what
  happens to the root \<^verbatim>\<open>None\<close> of a graph without a node of in-degree 0.
\<close>

lemma card_Diff_insert_less:
  assumes "finite A" and "n \<in> A" and "n \<notin> B"
  shows "card (A - insert n B) < card (A - B)"
proof -
  have "A - insert n B \<subset> A - B" using assms(2,3) by auto
  then show ?thesis using assms(1) by (intro psubset_card_mono) auto
qed

function traverse_loop ::
  "'t graph \<Rightarrow> 't node list \<Rightarrow> 't node list \<Rightarrow> error + 't node list" where
  "traverse_loop T [] visited = Inr []"
| "traverse_loop T (n # Q) visited =
     (if n \<in> set visited then traverse_loop T Q visited
      else if n \<notin> set (nodes T) then Inl NetworkXError
      else (case traverse_loop T (Q @ successors T n) (n # visited) of
              Inl e \<Rightarrow> Inl e
            | Inr ys \<Rightarrow> Inr (n # ys)))"
  by pat_completeness auto
termination
  apply (relation "measures [\<lambda>(T, Q, visited). card (set (nodes T) - set visited),
                              \<lambda>(T, Q, visited). length Q]")
    apply simp
   apply simp
  subgoal for T n Q visited
    using card_Diff_insert_less [of "set (nodes T)" n "set visited"] by simp
  done

definition traverse_topdown :: "'t graph \<Rightarrow> error + 't node list" where
  "traverse_topdown T =
     (case get_root T of
        None \<Rightarrow> Inl NetworkXError
      | Some r \<Rightarrow> traverse_loop T [r] [])"

subsection \<open>Pruning\<close>

text \<open>
  The dead-end loop of \<^verbatim>\<open>prune\<close>. \<^verbatim>\<open>internal_nodes\<close> holds tuples only, so it is a list of
  pairs here. One pass visits the list from its end; removing the node being visited from the
  list leaves the rest of the reversed iteration as it was.
\<close>

definition internal_nodes :: "'t graph \<Rightarrow> (int \<times> int) list" where
  "internal_nodes T =
     concat (map (\<lambda>n. case n of Internal i k \<Rightarrow> [(i, k)] | Terminal t \<Rightarrow> []) (nodes T))"

fun dead_end_pass ::
  "'t graph \<Rightarrow> (int \<times> int) list \<Rightarrow> (int \<times> int) list \<Rightarrow> 't graph \<times> (int \<times> int) list" where
  "dead_end_pass T [] ins = (T, ins)"
| "dead_end_pass T ((i, k) # rest) ins =
     (if out_degree T (Internal i k) = 0
      then dead_end_pass (del_node T (Internal i k)) rest (remove1 (i, k) ins)
      else dead_end_pass T rest ins)"

lemma dead_end_pass_length_le:
  "length (snd (dead_end_pass T vs ins)) \<le> length ins"
proof (induction T vs ins rule: dead_end_pass.induct)
  case (1 T ins)
  then show ?case by simp
next
  case (2 T i k rest ins)
  show ?case
  proof (cases "out_degree T (Internal i k) = 0")
    case True
    have "length (remove1 (i, k) ins) \<le> length ins"
      by (simp add: length_remove1)
    with "2.IH"(1) [OF True] True show ?thesis by simp
  next
    case False
    with "2.IH"(2) show ?thesis by simp
  qed
qed

lemma dead_end_pass_length_less:
  assumes "set vs \<subseteq> set ins"
      and "\<exists>(i, k) \<in> set vs. out_degree T (Internal i k) = 0"
  shows "length (snd (dead_end_pass T vs ins)) < length ins"
  using assms
proof (induction T vs ins rule: dead_end_pass.induct)
  case (1 T ins)
  then show ?case by simp
next
  case (2 T i k rest ins)
  show ?case
  proof (cases "out_degree T (Internal i k) = 0")
    case True
    have mem: "(i, k) \<in> set ins" using "2.prems"(1) by simp
    then have "length (remove1 (i, k) ins) < length ins"
      using length_pos_if_in_set [OF mem] by (simp add: length_remove1)
    moreover have "length (snd (dead_end_pass (del_node T (Internal i k)) rest
                      (remove1 (i, k) ins))) \<le> length (remove1 (i, k) ins)"
      by (rule dead_end_pass_length_le)
    ultimately show ?thesis using True by simp
  next
    case False
    then have "\<exists>(i, k) \<in> set rest. out_degree T (Internal i k) = 0"
      using "2.prems"(2) by auto
    moreover have "set rest \<subseteq> set ins" using "2.prems"(1) by simp
    ultimately show ?thesis using "2.IH"(2) False by simp
  qed
qed

function remove_dead_ends :: "'t graph \<Rightarrow> (int \<times> int) list \<Rightarrow> 't graph" where
  "remove_dead_ends T ins =
     (if \<exists>(i, k) \<in> set ins. out_degree T (Internal i k) = 0
      then (case dead_end_pass T (rev ins) ins of (T', ins') \<Rightarrow> remove_dead_ends T' ins')
      else T)"
  by pat_completeness auto
termination
  apply (relation "measure (\<lambda>(T, ins). length ins)")
   apply simp
  subgoal for T ins
    using dead_end_pass_length_less [of "rev ins" ins T]
    by (auto simp: split_beta)
  done

declare remove_dead_ends.simps [simp del]

text \<open>The local function \<^verbatim>\<open>_single_branch(node)\<close> of \<^verbatim>\<open>prune\<close>.\<close>

definition single_branch :: "bool \<Rightarrow> 't graph \<Rightarrow> 't node \<Rightarrow> bool" where
  "single_branch strict_single_branch T node =
     (if in_degree T node \<noteq> 1 then False
      else
        let outdeg =
              (if strict_single_branch
               then (if out_degree T node = 1 \<and> \<not> istuple (hd (successors T node))
                     then 0 else out_degree T node)
               else length (filter istuple (successors T node)))
        in if outdeg > 1 then False
           else if outdeg = 0 then out_degree T node = 1
           else True)"

text \<open>
  The body of the collapsing loop for one single-branch node: the only parent takes over every
  child, the weights added (a float addition), and the node is removed.
\<close>

definition collapse :: "(rat \<Rightarrow> rat) \<Rightarrow> 't graph \<Rightarrow> 't node \<Rightarrow> 't graph" where
  "collapse rnd T node =
     (let parent = hd (predecessors T node);
          children = successors T node;
          w1 = weight T parent node;
          T' = fold (\<lambda>child T. add_edge T parent child (rnd (w1 + weight T node child)))
                    children T
      in del_node T' node)"

text \<open>The body of the loop over \<^verbatim>\<open>all_nodes\<close>.\<close>

definition prune_step :: "(rat \<Rightarrow> rat) \<Rightarrow> bool \<Rightarrow> 't node \<Rightarrow> 't graph \<Rightarrow> 't graph" where
  "prune_step rnd strict_single_branch node T =
     (if single_branch strict_single_branch T node then collapse rnd T node else T)"

definition prune :: "(rat \<Rightarrow> rat) \<Rightarrow> bool \<Rightarrow> 't graph \<Rightarrow> error + 't graph" where
  "prune rnd strict_single_branch T =
     (let T1 = remove_dead_ends T (internal_nodes T)
      in case traverse_topdown T1 of
           Inl e \<Rightarrow> Inl e
         | Inr all_nodes \<Rightarrow> Inr (fold (prune_step rnd strict_single_branch) all_nodes T1))"

subsection \<open>Paths\<close>

definition edge_rel :: "'t graph \<Rightarrow> ('t node \<times> 't node) set" where
  "edge_rel G = set (edges G)"

text \<open>
  \<^verbatim>\<open>nx.has_path(G, s, t)\<close>: there is a directed path from s to t; a node reaches itself.
  The source calls it on nodes of the graph only.
\<close>

definition has_path :: "'t graph \<Rightarrow> 't node \<Rightarrow> 't node \<Rightarrow> bool" where
  "has_path G s t \<longleftrightarrow> s = t \<or> (s, t) \<in> (edge_rel G)\<^sup>+"

text \<open>\<^verbatim>\<open>nx.ancestors(G, node)\<close>: the nodes with a path to the node, the node itself left out.\<close>

definition ancestors :: "'t graph \<Rightarrow> 't node \<Rightarrow> 't node list" where
  "ancestors G node = filter (\<lambda>b. b \<noteq> node \<and> has_path G b node) (nodes G)"

text \<open>
  \<^verbatim>\<open>nx.shortest_path_length(G, source, target)\<close>: a breadth-first search by levels.
  \<open>None\<close> stands for the exception \<^verbatim>\<open>NetworkXNoPath\<close>. No level is later than the number
  of nodes, which bounds the search.
\<close>

fun bfs_levels ::
  "'t graph \<Rightarrow> nat \<Rightarrow> 't node list \<Rightarrow> 't node list \<Rightarrow> 't node \<Rightarrow> nat \<Rightarrow> nat option" where
  "bfs_levels G fuel frontier seen target d =
     (if target \<in> set frontier then Some d
      else case fuel of
             0 \<Rightarrow> None
           | Suc fuel' \<Rightarrow>
               (let next = remdups (filter (\<lambda>v. v \<notin> set seen)
                                           (concat (map (successors G) frontier)))
                in if next = [] then None
                   else bfs_levels G fuel' next (seen @ next) target (Suc d)))"

definition shortest_path_length :: "'t graph \<Rightarrow> 't node \<Rightarrow> 't node \<Rightarrow> nat option" where
  "shortest_path_length G s t = bfs_levels G (length (nodes G)) [s] [s] t 0"

subsection \<open>The candidate graph: \<^verbatim>\<open>Weaver._build\<close>\<close>

text \<open>The node \<^verbatim>\<open>(i, 0)\<close> of the cluster in row i of the assignment matrix.\<close>

definition cluster :: "nat \<Rightarrow> 't node" where
  "cluster i = Internal (int i) 0"

text \<open>
  The generator \<^verbatim>\<open>gen\<close> of ordered pairs: \<^verbatim>\<open>itertools.product(rng, rng)\<close> runs the second
  index fastest.
\<close>

definition gen :: "bool \<Rightarrow> int list \<Rightarrow> nat \<Rightarrow> (nat \<times> nat) list" where
  "gen assume_levels levels n_sets =
     filter (\<lambda>(i, j). if assume_levels then levels ! i > levels ! j else i \<noteq> j)
            (List.product [0..<n_sets] [0..<n_sets])"

text \<open>
  The body of the loop over \<^verbatim>\<open>gen\<close>. The comparisons of a \<^verbatim>\<open>nan\<close> with the cutoff are
  false. \<^verbatim>\<open>G.has_edge(na, nb)\<close> asks for the edge from the candidate child \<open>na\<close> to the
  candidate parent \<open>nb\<close>, the opposite of the edge \<open>nb \<rightarrow> na\<close> the step is about to add; the
  \<^verbatim>\<open>continue\<close> leaves the graph as it is.
\<close>

definition init_step :: "rat \<Rightarrow> npfloat list list \<Rightarrow> nat \<times> nat \<Rightarrow> 't graph \<Rightarrow> 't graph" where
  "init_step cutoff CI ij G =
     (case ij of (i, j) \<Rightarrow>
        let na = cluster i; nb = cluster j;
            G2 = add_node (add_node G na) nb
        in case CI ! i ! j of
             NaN \<Rightarrow> G2
           | Fin C \<Rightarrow>
               if C \<ge> cutoff then
                 (if has_edge G2 na nb then
                    (if C > weight G2 na nb then add_edge (del_edge G2 na nb) nb na C
                     else G2)
                  else add_edge G2 nb na C)
               else G2)"

definition init_graph ::
  "rat \<Rightarrow> bool \<Rightarrow> int list \<Rightarrow> npfloat list list \<Rightarrow> nat \<Rightarrow> 't graph" where
  "init_graph cutoff assume_levels levels CI n_sets =
     fold (init_step cutoff CI) (gen assume_levels levels n_sets) empty_graph"

text \<open>
  The root: the only node of in-degree 0, or the new node \<^verbatim>\<open>(-1, 0)\<close> above all of them.
  \<^verbatim>\<open>roots[0]\<close> raises IndexError when the graph has no node of in-degree 0.
\<close>

definition add_root :: "'t graph \<Rightarrow> error + ('t graph \<times> 't node)" where
  "add_root G =
     (let roots = filter (\<lambda>n. in_degree G n = 0) (nodes G)
      in if length roots > 1
         then Inr (fold (\<lambda>node G. add_edge G (Internal (- 1) 0) node 1) roots
                        (add_node G (Internal (- 1) 0)),
                   Internal (- 1) 0)
         else (case roots of [] \<Rightarrow> Inl IndexError | r # _ \<Rightarrow> Inr (G, r)))"

text \<open>
  \<^verbatim>\<open>neq(a, b)\<close> computes \<^verbatim>\<open>r = a != b\<close>, a bool for two tuples, and returns \<^verbatim>\<open>True\<close>
  when \<^verbatim>\<open>len(r)\<close> raises TypeError, which it does for every bool.
\<close>

definition neq :: "'t node \<Rightarrow> 't node \<Rightarrow> bool" where
  "neq a b = True"

text \<open>
  The redundant edges: \<open>(a, node)\<close> for a parent a of the node that has an edge to an
  ancestor of the node.
\<close>

definition redundant_edges :: "'t graph \<Rightarrow> ('t node \<times> 't node) list" where
  "redundant_edges G =
     concat (map (\<lambda>node.
        concat (map (\<lambda>a. if \<exists>b \<in> set (ancestors G node). neq a b \<and> has_edge G a b
                          then [(a, node)] else [])
                    (predecessors G node)))
        (nodes G))"

definition remove_redundant :: "'t graph \<Rightarrow> 't graph" where
  "remove_redundant G = remove_edges_from G (redundant_edges G)"

text \<open>
  Terminal attachment. \<open>scan_attached\<close> is the loop over \<^verbatim>\<open>reversed(attached)\<close>: it stops
  with \<open>skip\<close> at a node that the new node reaches, and detaches every node that reaches the
  new node. The nodes of one list are distinct, so removing the current one leaves the rest of
  the reversed iteration as it was; the edge removed is there, since a node enters the list when
  its edge to the terminal is added.
\<close>

fun scan_attached ::
  "'t graph \<Rightarrow> 't node \<Rightarrow> 't \<Rightarrow> 't node list \<Rightarrow> 't node list
     \<Rightarrow> 't graph \<times> 't node list \<times> bool" where
  "scan_attached G node ter [] attached = (G, attached, False)"
| "scan_attached G node ter (other # rest) attached =
     (if has_path G node other then (G, attached, True)
      else if has_path G other node
      then scan_attached (del_edge G other (Terminal ter)) node ter rest (remove1 other attached)
      else scan_attached G node ter rest attached)"

definition attach_terminal ::
  "'t node \<Rightarrow> 't \<Rightarrow> 't graph \<times> ('t \<Rightarrow> 't node list) \<Rightarrow> 't graph \<times> ('t \<Rightarrow> 't node list)" where
  "attach_terminal node ter st =
     (case st of (G, attached_record) \<Rightarrow>
        (case scan_attached G node ter (rev (attached_record ter)) (attached_record ter) of
           (G', attached, skip) \<Rightarrow>
             if skip then (G', attached_record(ter := attached))
             else (add_edge G' node (Terminal ter) 1,
                   attached_record(ter := attached @ [node]))))"

text \<open>
  The terminals of one node: \<^verbatim>\<open>X[L[n]]\<close> are the positions of the true entries of row n.
  The nodes visited are the nodes of the graph, \<^verbatim>\<open>(i, 0)\<close> for a row i of L and possibly the
  root \<^verbatim>\<open>(-1, 0)\<close>, which is passed over; the rows of L and the terminals have the same
  length, checked by \<^verbatim>\<open>weave\<close> and the terminals setter.
\<close>

definition members :: "bool list \<Rightarrow> nat list" where
  "members row = filter (\<lambda>i. row ! i) [0..<length row]"

definition attach_node ::
  "bool list list \<Rightarrow> 't list \<Rightarrow> 't node
     \<Rightarrow> 't graph \<times> ('t \<Rightarrow> 't node list) \<Rightarrow> 't graph \<times> ('t \<Rightarrow> 't node list)" where
  "attach_node L terminals node st =
     (case node of
        Terminal t \<Rightarrow> st
      | Internal n k \<Rightarrow>
          if n = - 1 then st
          else fold (\<lambda>i. attach_terminal node (terminals ! i)) (members (L ! nat n)) st)"

definition attach :: "bool list list \<Rightarrow> 't list \<Rightarrow> 't graph \<Rightarrow> 't graph" where
  "attach L terminals G = fst (fold (attach_node L terminals) (nodes G) (G, \<lambda>_. []))"

text \<open>
  Secondary edges. \<^verbatim>\<open>node_size\<close> indexes L with the first component of the tuple, as Python
  does: a negative index counts from the end. \<^verbatim>\<open>sorted(..., reverse=True)\<close> is stable, as is
  a sort by the negated key. The keys are floats: the weight times the size of the node, and
  its quotient by the size of the union; the size of a cluster with a member is positive, so
  the divisor is not zero.
\<close>

definition py_nth :: "'a list \<Rightarrow> int \<Rightarrow> 'a" where
  "py_nth xs i = (if i < 0 then xs ! nat (int (length xs) + i) else xs ! nat i)"

definition node_size :: "bool list list \<Rightarrow> 't node \<Rightarrow> nat" where
  "node_size L node =
     (case node of Internal i k \<Rightarrow> count_nonzero (py_nth L i) | Terminal t \<Rightarrow> 1)"

definition sorted_reverse :: "('a \<Rightarrow> 'k :: {linorder, uminus}) \<Rightarrow> 'a list \<Rightarrow> 'a list" where
  "sorted_reverse key xs = sort_key (\<lambda>x. - key x) xs"

definition preference ::
  "(rat \<Rightarrow> rat) \<Rightarrow> bool list list \<Rightarrow> 't graph \<Rightarrow> 't node \<Rightarrow> 't node \<Rightarrow> rat" where
  "preference rnd L G node p =
     (let w = weight G p node;
          nsize = node_size L node;
          psize = node_size L p;
          usize = rnd (w * rnd (of_nat nsize))
      in rnd (usize / rnd (rnd (of_nat (nsize + psize)) - usize)))"

definition ranked_edges ::
  "(rat \<Rightarrow> rat) \<Rightarrow> bool list list \<Rightarrow> 't graph \<Rightarrow> 't node
     \<Rightarrow> (('t node \<times> 't node) \<times> rat) list" where
  "ranked_edges rnd L G node =
     map (\<lambda>x. ((fst x, node), snd x))
         (sorted_reverse snd (map (\<lambda>p. (p, preference rnd L G node p)) (predecessors G node)))"

text \<open>
  The steps from the root to every parent of a terminal; \<^verbatim>\<open>shortest_path_length\<close> raises
  when there is no path.
\<close>

fun terminal_edges ::
  "'t graph \<Rightarrow> 't node \<Rightarrow> 't node \<Rightarrow> 't node list
     \<Rightarrow> error + (('t node \<times> 't node) \<times> int) list" where
  "terminal_edges G r node [] = Inr []"
| "terminal_edges G r node (p # ps) =
     (case shortest_path_length G r p of
        None \<Rightarrow> Inl NetworkXNoPath
      | Some n_steps \<Rightarrow>
          (case terminal_edges G r node ps of
             Inl e \<Rightarrow> Inl e
           | Inr es \<Rightarrow> Inr (((p, node), int n_steps) # es)))"

fun find_secondary ::
  "(rat \<Rightarrow> rat) \<Rightarrow> bool list list \<Rightarrow> 't graph \<Rightarrow> 't node \<Rightarrow> 't node list
     \<Rightarrow> error + ((('t node \<times> 't node) \<times> rat) list \<times> (('t node \<times> 't node) \<times> int) list)" where
  "find_secondary rnd L G r [] = Inr ([], [])"
| "find_secondary rnd L G r (node # rest) =
     (if length (predecessors G node) > 1 then
        (if istuple node then
           (case find_secondary rnd L G r rest of
              Inl e \<Rightarrow> Inl e
            | Inr (se, ste) \<Rightarrow> Inr (tl (ranked_edges rnd L G node) @ se, ste))
         else
           (case terminal_edges G r node (predecessors G node) of
              Inl e \<Rightarrow> Inl e
            | Inr es \<Rightarrow>
                (case find_secondary rnd L G r rest of
                   Inl e \<Rightarrow> Inl e
                 | Inr (se, ste) \<Rightarrow> Inr (se, tl (sorted_reverse snd es) @ ste))))
      else find_secondary rnd L G r rest)"

text \<open>
  The slots of a \<^verbatim>\<open>Weaver\<close> (\<^verbatim>\<open>_labels\<close>, which no function modelled here reads, is left
  out). A slot holding \<^verbatim>\<open>None\<close> is \<open>None\<close>.
\<close>

record 't weaver =
  hier :: "'t graph option"
  w_full :: "'t graph option"
  w_secondary_edges :: "(('t node \<times> 't node) \<times> rat) list option"
  w_secondary_terminal_edges :: "(('t node \<times> 't node) \<times> int) list option"
  w_assume_levels :: bool
  w_levels :: "int list option"
  w_terminals :: "'t list option"
  w_assignment :: "bool list list option"


text \<open>
  \<^verbatim>\<open>_build\<close> up to the assignment of \<^verbatim>\<open>self._full\<close>: the candidate graph and its root.
  The generator reads \<^verbatim>\<open>levels[i]\<close> for every row when levels are assumed, which raises
  for a level array shorter than the matrix.
\<close>

definition build_graph ::
  "(rat \<Rightarrow> rat) \<Rightarrow> rat \<Rightarrow> bool \<Rightarrow> int list \<Rightarrow> bool list list \<Rightarrow> 't list
     \<Rightarrow> error + ('t graph \<times> 't node)" where
  "build_graph rnd cutoff assume_levels levels L terminals =
     (case containment_indices_boolean rnd L L of
        Inl e \<Rightarrow> Inl e
      | Inr CI \<Rightarrow>
          if assume_levels \<and> length levels < length L then Inl IndexError
          else (case add_root (init_graph cutoff assume_levels levels CI (length L)) of
                  Inl e \<Rightarrow> Inl e
                | Inr (G, r) \<Rightarrow> Inr (attach L terminals (remove_redundant G), r)))"

text \<open>
  \<^verbatim>\<open>_build\<close>: the result (the graph, or the exception) and the weaver afterwards.
  \<^verbatim>\<open>self._full\<close> is assigned before the secondary edges are looked for.
\<close>

definition build ::
  "(rat \<Rightarrow> rat) \<Rightarrow> rat \<Rightarrow> 't weaver \<Rightarrow> (error + 't graph) \<times> 't weaver" where
  "build rnd cutoff w =
     (case (w_assignment w, w_terminals w, w_levels w) of
        (Some L, Some terminals, Some levels) \<Rightarrow>
          (case build_graph rnd cutoff (w_assume_levels w) levels L terminals of
             Inl e \<Rightarrow> (Inl e, w)
           | Inr (G, r) \<Rightarrow>
               (case find_secondary rnd L G r (nodes G) of
                  Inl e \<Rightarrow> (Inl e, w\<lparr>w_full := Some G\<rparr>)
                | Inr (se, ste) \<Rightarrow>
                    (Inr G, w\<lparr>w_full := Some G,
                              w_secondary_edges := Some (sorted_reverse snd se),
                              w_secondary_terminal_edges := Some (sorted_reverse snd ste)\<rparr>)))
      | _ \<Rightarrow> (Inl TypeError, w))"

subsection \<open>Depths: \<^verbatim>\<open>Weaver.update_depth\<close>\<close>

text \<open>
  The loop over the children of one parent in \<^verbatim>\<open>_update_topdown\<close>: a child without a depth,
  or with a depth above \<open>par_depth + 1\<close>, gets \<open>par_depth + 1\<close> and joins the queue.
  \<^verbatim>\<open>T.nodes[child]\<close> raises KeyError for a child that is no node.
\<close>

fun relax ::
  "nat \<Rightarrow> 't node list \<Rightarrow> 't graph \<times> 't node list \<Rightarrow> error + 't graph \<times> 't node list" where
  "relax par_depth [] (T, Q) = Inr (T, Q)"
| "relax par_depth (child # cs) (T, Q) =
     (if child \<notin> set (nodes T) then Inl KeyError
      else case depth T child of
             Some ch_depth \<Rightarrow>
               if ch_depth \<le> par_depth + 1 then relax par_depth cs (T, Q)
               else relax par_depth cs
                      (T\<lparr>depth := (depth T)(child \<mapsto> par_depth + 1)\<rparr>, Q @ [child])
           | None \<Rightarrow>
               relax par_depth cs
                 (T\<lparr>depth := (depth T)(child \<mapsto> par_depth + 1)\<rparr>, Q @ [child]))"

text \<open>
  The loop of \<^verbatim>\<open>_update_topdown\<close>. It terminates: a round of \<open>relax\<close> that changes the
  graph gives a depth to a node that had none or lowers a depth.
\<close>

definition unset_count :: "'t graph \<Rightarrow> nat" where
  "unset_count T = card {v \<in> set (nodes T). depth T v = None}"

definition depth_sum :: "'t graph \<Rightarrow> nat" where
  "depth_sum T = (\<Sum>v \<in> set (nodes T). case depth T v of None \<Rightarrow> 0 | Some d \<Rightarrow> d)"

definition depth_order :: "('t graph \<times> 't graph) set" where
  "depth_order = inv_image (less_than <*lex*> less_than) (\<lambda>T. (unset_count T, depth_sum T))"

lemma depth_order_trans: "(a, b) \<in> depth_order \<Longrightarrow> (b, c) \<in> depth_order \<Longrightarrow> (a, c) \<in> depth_order"
  unfolding depth_order_def by auto

lemma set_depth_decreases:
  assumes "child \<in> set (nodes T)"
      and "case depth T child of None \<Rightarrow> True | Some ch \<Rightarrow> d < ch"
  shows "(T\<lparr>depth := (depth T)(child \<mapsto> d)\<rparr>, T) \<in> depth_order"
proof (cases "depth T child")
  case None
  let ?T' = "T\<lparr>depth := (depth T)(child \<mapsto> d)\<rparr>"
  have "{v \<in> set (nodes ?T'). depth ?T' v = None} \<subset> {v \<in> set (nodes T). depth T v = None}"
    using None assms(1) by auto
  then have "unset_count ?T' < unset_count T"
    unfolding unset_count_def by (intro psubset_card_mono) auto
  then show ?thesis by (simp add: depth_order_def)
next
  case (Some ch)
  let ?T' = "T\<lparr>depth := (depth T)(child \<mapsto> d)\<rparr>"
  let ?f = "\<lambda>T v. case depth T v of None \<Rightarrow> 0 | Some d \<Rightarrow> d"
  have lt: "d < ch" using Some assms(2) by simp
  have eq1: "{v \<in> set (nodes ?T'). depth ?T' v = None} = {v \<in> set (nodes T). depth T v = None}"
    using Some by auto
  have "(\<Sum>v \<in> set (nodes T). ?f ?T' v) < (\<Sum>v \<in> set (nodes T). ?f T v)"
  proof (rule sum_strict_mono_ex1)
    show "finite (set (nodes T))" by simp
    show "\<forall>v \<in> set (nodes T). ?f ?T' v \<le> ?f T v" using Some lt by auto
    show "\<exists>v \<in> set (nodes T). ?f ?T' v < ?f T v"
      using assms(1) Some lt by (intro bexI [of _ child]) auto
  qed
  then have "depth_sum ?T' < depth_sum T" by (simp add: depth_sum_def)
  moreover have "unset_count ?T' = unset_count T" unfolding unset_count_def eq1 by simp
  ultimately show ?thesis by (simp add: depth_order_def)
qed

lemma relax_decreases:
  "relax d cs (T, Q) = Inr (T', Q') \<Longrightarrow> (T' = T \<and> Q' = Q) \<or> (T', T) \<in> depth_order"
proof (induction cs arbitrary: T Q)
  case Nil
  then show ?case by simp
next
  case (Cons child cs)
  from Cons.prems have mem: "child \<in> set (nodes T)" by (auto split: if_splits)
  let ?T1 = "T\<lparr>depth := (depth T)(child \<mapsto> d + 1)\<rparr>"
  show ?case
  proof (cases "case depth T child of None \<Rightarrow> True | Some ch \<Rightarrow> d + 1 < ch")
    case True
    then have step: "relax d cs (?T1, Q @ [child]) = Inr (T', Q')"
      using Cons.prems mem by (auto split: option.splits if_splits)
    have dec: "(?T1, T) \<in> depth_order"
      by (rule set_depth_decreases [OF mem True])
    from Cons.IH [OF step] show ?thesis
      using dec depth_order_trans by blast
  next
    case False
    then have step: "relax d cs (T, Q) = Inr (T', Q')"
      using Cons.prems mem by (auto split: option.splits if_splits)
    from Cons.IH [OF step] show ?thesis .
  qed
qed

function update_topdown :: "'t graph \<Rightarrow> 't node list \<Rightarrow> error + 't graph" where
  "update_topdown T [] = Inr T"
| "update_topdown T (parent # Q) =
     (if parent \<notin> set (nodes T) then Inl KeyError
      else case depth T parent of
             None \<Rightarrow> Inl KeyError
           | Some par_depth \<Rightarrow>
               (case relax par_depth (successors T parent) (T, Q) of
                  Inl e \<Rightarrow> Inl e
                | Inr (T', Q') \<Rightarrow> update_topdown T' Q'))"
  by pat_completeness auto
termination
  apply (relation "inv_image (depth_order <*lex*> less_than) (\<lambda>(T, Q). (T, length Q))")
  subgoal by (simp add: depth_order_def wf_lex_prod)
  subgoal for T parent Q par_depth x T' Q'
    using relax_decreases [of par_depth "successors T parent" T Q T' Q'] by auto
  done

declare update_topdown.simps [simp del]

text \<open>
  \<^verbatim>\<open>update_depth\<close> on the hierarchy: \<^verbatim>\<open>T.nodes[root]['depth'] = 0\<close> raises KeyError for
  the root \<^verbatim>\<open>None\<close> of a graph without a node of in-degree 0.
\<close>

definition update_depth_graph :: "'t graph \<Rightarrow> error + 't graph" where
  "update_depth_graph T =
     (case get_root T of
        None \<Rightarrow> Inl KeyError
      | Some r \<Rightarrow> update_topdown (T\<lparr>depth := (depth T)(r \<mapsto> 0)\<rparr>) [r])"

text \<open>
  The method, on the weaver: the hierarchy is changed in place, so it is as it was when the
  exception is raised, which happens before the first depth is written.
\<close>

definition update_depth :: "'t weaver \<Rightarrow> (error + unit) \<times> 't weaver" where
  "update_depth w =
     (case hier w of
        None \<Rightarrow> (Inl (ValueError ''hierarchy not built. Call weave() first''), w)
      | Some T \<Rightarrow>
          (case update_depth_graph T of
             Inl e \<Rightarrow> (Inl e, w)
           | Inr T' \<Rightarrow> (Inr (), w\<lparr>hier := Some T'\<rparr>)))"

subsection \<open>Edge selection: \<^verbatim>\<open>Weaver.pick\<close>\<close>

text \<open>
  \<^verbatim>\<open>int(len(secondary) * percentage / 100.)\<close> truncates towards zero, and
  \<^verbatim>\<open>secondary[n:]\<close> counts a negative n from the end. The percentages are integers here.
\<close>

definition py_int_div :: "int \<Rightarrow> int \<Rightarrow> int" where
  "py_int_div a b = (if a \<ge> 0 then a div b else - ((- a) div b))"

definition py_slice_from :: "'a list \<Rightarrow> int \<Rightarrow> 'a list" where
  "py_slice_from xs n = (if n \<ge> 0 then drop (nat n) xs else drop (length xs - nat (- n)) xs)"

text \<open>The two selections of \<^verbatim>\<open>pick\<close>, which differ in the list and the percentage only.\<close>

definition remove_secondary :: "int \<Rightarrow> ('t node \<times> 't node) list \<Rightarrow> 't graph \<Rightarrow> 't graph" where
  "remove_secondary percentage secondary T =
     (if percentage = 0 then remove_edges_from T secondary
      else if percentage < 100
      then remove_edges_from T
             (py_slice_from secondary (py_int_div (int (length secondary) * percentage) 100))
      else T)"

text \<open>The loop over the additional edges; G is the cached candidate graph.\<close>

fun add_additional ::
  "'t graph \<Rightarrow> bool \<Rightarrow> ('t node \<times> 't node) list \<Rightarrow> 't graph \<Rightarrow> error + 't graph" where
  "add_additional G replace [] T = Inr T"
| "add_additional G replace ((u, v) # es) T =
     (if \<not> has_edge G u v then Inl (ValueError ''edge does not exist'')
      else add_additional G replace es
             (add_edge (if replace
                        then remove_edges_from T (map (\<lambda>w. (w, v)) (predecessors T v))
                        else T) u v 1))"

text \<open>
  \<^verbatim>\<open>pick\<close>: the result and the weaver afterwards. \<^verbatim>\<open>self.hier\<close> is assigned when
  \<^verbatim>\<open>prune\<close> has returned, and \<^verbatim>\<open>update_depth\<close> then works on the new hierarchy.
  The arguments \<^verbatim>\<open>additional\<close>, \<^verbatim>\<open>replace\<close> and \<^verbatim>\<open>strict_single_branch\<close> are the
  keyword arguments.
\<close>

definition pick ::
  "(rat \<Rightarrow> rat) \<Rightarrow> int \<Rightarrow> int \<Rightarrow> ('t node \<times> 't node) list option \<Rightarrow> bool \<Rightarrow> bool
     \<Rightarrow> 't weaver \<Rightarrow> (error + 't graph) \<times> 't weaver" where
  "pick rnd percentage_edges percentage_terminal_edges additional replace strict_single_branch w =
     (case w_secondary_edges w of
        None \<Rightarrow> (Inl (ValueError ''hierarchy not built. Call weave() first''), w)
      | Some se \<Rightarrow>
     (case w_secondary_terminal_edges w of
        None \<Rightarrow> (Inl (ValueError ''hierarchy not built. Call weave() first''), w)
      | Some ste \<Rightarrow>
     (case w_full w of
        None \<Rightarrow> (Inl AttributeError, w)
      | Some G \<Rightarrow>
          let T = remove_secondary percentage_terminal_edges (map fst ste)
                    (remove_secondary percentage_edges (map fst se) G)
          in (case (case additional of None \<Rightarrow> Inr T
                    | Some add_edges \<Rightarrow> add_additional G replace add_edges T) of
                Inl e \<Rightarrow> (Inl e, w)
              | Inr T' \<Rightarrow>
                  (case prune rnd strict_single_branch T' of
                     Inl e \<Rightarrow> (Inl e, w)
                   | Inr H \<Rightarrow>
                       (case update_depth_graph H of
                          Inl e \<Rightarrow> (Inl e, w\<lparr>hier := Some H\<rparr>)
                        | Inr H' \<Rightarrow> (Inr H', w\<lparr>hier := Some H'\<rparr>)))))))"

subsection \<open>\<^verbatim>\<open>Weaver.weave\<close>\<close>

text \<open>
  The argument \<^verbatim>\<open>levels\<close> is a bool or an array of level keys. The keyword arguments of
  \<^verbatim>\<open>weave\<close> with their defaults are a record.
\<close>

datatype levels_arg = LevelsBool bool | LevelsArray "int list"

record 't kwargs =
  kw_top :: int
  kw_cutoff :: rat
  kw_percentage_terminal_edges :: int
  kw_additional :: "('t node \<times> 't node) list option"
  kw_replace :: bool
  kw_strict_single_branch :: bool

definition default_kwargs :: "'t kwargs" where
  "default_kwargs = \<lparr>kw_top = 100, kw_cutoff = 4 / 5, kw_percentage_terminal_edges = 0,
                      kw_additional = None, kw_replace = False,
                      kw_strict_single_branch = False\<rparr>"

text \<open>\<^verbatim>\<open>number_of_terminals\<close>.\<close>

definition n_terminals :: "'t weaver \<Rightarrow> nat" where
  "n_terminals w = (case w_assignment w of None \<Rightarrow> 0 | Some L \<Rightarrow> length (hd L))"

text \<open>
  The rows of the assignment matrix of labelled partitions, each with the level of its
  partition: one row for every label of \<^verbatim>\<open>np.unique(p)\<close>, in ascending order.
\<close>

definition label_rows :: "int list \<Rightarrow> ('l :: linorder) list list \<Rightarrow> (bool list \<times> int) list" where
  "label_rows clevels partitions =
     concat (map (\<lambda>(i, p). map (\<lambda>label. (map (\<lambda>x. x = label) p, clevels ! i))
                                 (sort (remdups p)))
                 (enumerate 0 partitions))"

text \<open>
  \<^verbatim>\<open>weave\<close>. \<open>truth\<close> is the conversion of a label by \<^verbatim>\<open>astype(bool)\<close>, and \<open>arange\<close>
  gives the default terminal labels. Every partition has \<open>n_nodes\<close> entries when the second
  check has passed. \<^verbatim>\<open>np.vstack\<close> raises for an empty list of rows.
\<close>

definition weave ::
  "(rat \<Rightarrow> rat) \<Rightarrow> ('l :: linorder \<Rightarrow> bool) \<Rightarrow> (nat \<Rightarrow> 't list) \<Rightarrow> 'l list list
     \<Rightarrow> 't terminals_arg \<Rightarrow> bool \<Rightarrow> levels_arg \<Rightarrow> 't kwargs \<Rightarrow> 't weaver
     \<Rightarrow> (error + 't graph) \<times> 't weaver" where
  "weave rnd truth arange partitions terminals boolean levels kw w =
     (let n_sets = length partitions
      in if n_sets = 0 then (Inl (ValueError ''partitions cannot be empty''), w)
         else if \<exists>p \<in> set partitions. \<exists>q \<in> set partitions. length p \<noteq> length q
         then (Inl (ValueError ''partitions must have the same length''), w)
         else
           let w1 = w\<lparr>w_assume_levels := (case levels of LevelsBool b \<Rightarrow> b
                                           | LevelsArray ls \<Rightarrow> True)\<rparr>;
               clevels = (case levels of LevelsBool b \<Rightarrow> map int [0..<n_sets]
                          | LevelsArray ls \<Rightarrow> ls)
           in if length clevels \<noteq> n_sets
              then (Inl (ValueError ''levels/partitions length mismatch''), w1)
              else if \<not> boolean \<and> label_rows clevels partitions = []
              then (Inl (ValueError ''need at least one array to concatenate''), w1)
              else
                let w2 = (if boolean
                          then w1\<lparr>w_assignment := Some (map (map truth) partitions),
                                  w_levels := Some clevels\<rparr>
                          else w1\<lparr>w_assignment := Some (map fst (label_rows clevels partitions)),
                                  w_levels := Some (map snd (label_rows clevels partitions))\<rparr>)
                in (case set_terminals arange (n_terminals w2) terminals of
                      Inl e \<Rightarrow> (Inl e, w2)
                    | Inr ts \<Rightarrow>
                        (case build rnd (kw_cutoff kw) (w2\<lparr>w_terminals := Some ts\<rparr>) of
                           (Inl e, w3) \<Rightarrow> (Inl e, w3)
                         | (Inr _, w3) \<Rightarrow>
                             pick rnd (kw_top kw) (kw_percentage_terminal_edges kw)
                                  (kw_additional kw) (kw_replace kw)
                                  (kw_strict_single_branch kw) w3)))"

subsection \<open>Small instances\<close>



subsection \<open>The edges between two clusters\<close>


definition pair_state :: "'t graph \<Rightarrow> nat \<Rightarrow> nat \<Rightarrow> rat option \<times> rat option" where
  "pair_state G i j =
     (map_of (succ G (cluster j)) (cluster i), map_of (succ G (cluster i)) (cluster j))"




subsection \<open>The state of the depth update\<close>



subsection \<open>Graphs given by their lists\<close>

text \<open>
  \<open>graph_of ns sl pl dl\<close> is the graph with the nodes ns whose successor dictionaries,
  predecessor dictionaries and depths are the association lists sl, pl and dl; a node without
  an entry has no successor, no predecessor, no depth. \<open>set_edge\<close> is the second half of
  \<^verbatim>\<open>add_edge\<close>, for end points that are nodes.
\<close>

definition lookup :: "('k \<times> 'v list) list \<Rightarrow> 'k \<Rightarrow> 'v list" where
  "lookup al k = (case map_of al k of None \<Rightarrow> [] | Some l \<Rightarrow> l)"

definition olookup :: "('k \<times> 'v) list \<Rightarrow> 'k \<Rightarrow> 'v option" where
  "olookup al = map_of al"

definition graph_of ::
  "'t node list \<Rightarrow> ('t node \<times> ('t node \<times> rat) list) list \<Rightarrow> ('t node \<times> 't node list) list
     \<Rightarrow> ('t node \<times> nat) list \<Rightarrow> 't graph" where
  "graph_of ns sl pl dl = \<lparr>nodes = ns, succ = lookup sl, pred = lookup pl, depth = olookup dl\<rparr>"

definition set_edge :: "'t graph \<Rightarrow> 't node \<Rightarrow> 't node \<Rightarrow> rat \<Rightarrow> 't graph" where
  "set_edge G u v w =
     G\<lparr>succ := (succ G)(u := AList.update v w (succ G u)),
       pred := (pred G)(v := (if u \<in> set (pred G v) then pred G v else pred G v @ [u]))\<rparr>"

text \<open>
  Two hierarchies. \<open>ex_branch\<close>: the root \<^verbatim>\<open>(0, 0)\<close> has the children \<^verbatim>\<open>(1, 0)\<close> and
  \<^verbatim>\<open>(2, 0)\<close>; \<^verbatim>\<open>(1, 0)\<close> has the children \<^verbatim>\<open>(3, 0)\<close>, with the terminal 0, and
  \<^verbatim>\<open>(4, 0)\<close>, with the terminals 1 and 2; \<^verbatim>\<open>(2, 0)\<close> has the terminals 3 and 4. It
  is the candidate graph of the boolean partitions 11111, 11100, 00011, 10000, 01100.
  \<open>ex_triangle\<close>: the root has the child \<^verbatim>\<open>(1, 0)\<close> and the terminal 0; \<^verbatim>\<open>(1, 0)\<close> has
  the child \<^verbatim>\<open>(2, 0)\<close> and the terminal 1, which is also the only child of \<^verbatim>\<open>(2, 0)\<close>.
  All weights are 1. The other four graphs are what \<^verbatim>\<open>prune\<close> makes of them, once and
  twice.
\<close>

definition ex_branch :: "nat graph" where
  "ex_branch = graph_of
      [Internal 0 0, Internal 1 0, Internal 2 0, Internal 3 0, Internal 4 0,
       Terminal 0, Terminal 1, Terminal 2, Terminal 3, Terminal 4]
      [(Internal 0 0, [(Internal 1 0, 1), (Internal 2 0, 1)]),
       (Internal 1 0, [(Internal 3 0, 1), (Internal 4 0, 1)]),
       (Internal 2 0, [(Terminal 3, 1), (Terminal 4, 1)]), (Internal 3 0, [(Terminal 0, 1)]),
       (Internal 4 0, [(Terminal 1, 1), (Terminal 2, 1)]),
       (Terminal 0, []), (Terminal 1, []), (Terminal 2, []),
       (Terminal 3, []), (Terminal 4, [])]
      [(Internal 0 0, []), (Internal 1 0, [Internal 0 0]),
       (Internal 2 0, [Internal 0 0]), (Internal 3 0, [Internal 1 0]),
       (Internal 4 0, [Internal 1 0]), (Terminal 0, [Internal 3 0]),
       (Terminal 1, [Internal 4 0]), (Terminal 2, [Internal 4 0]),
       (Terminal 3, [Internal 2 0]), (Terminal 4, [Internal 2 0])]
      []"



definition ex_branch_once :: "(rat \<Rightarrow> rat) \<Rightarrow> nat graph" where
  "ex_branch_once rnd = graph_of
      [Internal 0 0, Internal 1 0, Internal 2 0, Internal 4 0,
       Terminal 0, Terminal 1, Terminal 2, Terminal 3, Terminal 4]
      [(Internal 0 0, [(Internal 1 0, 1), (Internal 2 0, 1)]),
       (Internal 1 0, [(Internal 4 0, 1), (Terminal 0, rnd 2)]),
       (Internal 2 0, [(Terminal 3, 1), (Terminal 4, 1)]),
       (Internal 4 0, [(Terminal 1, 1), (Terminal 2, 1)]),
       (Terminal 0, []), (Terminal 1, []), (Terminal 2, []),
       (Terminal 3, []), (Terminal 4, [])]
      [(Internal 0 0, []), (Internal 1 0, [Internal 0 0]),
       (Internal 2 0, [Internal 0 0]), (Internal 4 0, [Internal 1 0]),
       (Terminal 0, [Internal 1 0]), (Terminal 1, [Internal 4 0]),
       (Terminal 2, [Internal 4 0]), (Terminal 3, [Internal 2 0]),
       (Terminal 4, [Internal 2 0])]
      []"

definition ex_branch_twice :: "(rat \<Rightarrow> rat) \<Rightarrow> nat graph" where
  "ex_branch_twice rnd = graph_of
      [Internal 0 0, Internal 2 0, Internal 4 0,
       Terminal 0, Terminal 1, Terminal 2, Terminal 3, Terminal 4]
      [(Internal 0 0, [(Internal 2 0, 1), (Internal 4 0, rnd 2), (Terminal 0, rnd (1 + rnd 2))]),
       (Internal 2 0, [(Terminal 3, 1), (Terminal 4, 1)]),
       (Internal 4 0, [(Terminal 1, 1), (Terminal 2, 1)]),
       (Terminal 0, []), (Terminal 1, []), (Terminal 2, []),
       (Terminal 3, []), (Terminal 4, [])]
      [(Internal 0 0, []), (Internal 2 0, [Internal 0 0]),
       (Internal 4 0, [Internal 0 0]), (Terminal 0, [Internal 0 0]),
       (Terminal 1, [Internal 4 0]), (Terminal 2, [Internal 4 0]),
       (Terminal 3, [Internal 2 0]), (Terminal 4, [Internal 2 0])]
      []"

definition ex_triangle :: "nat graph" where
  "ex_triangle = graph_of
      [Internal 0 0, Internal 1 0, Terminal 0, Internal 2 0, Terminal 1]
      [(Internal 0 0, [(Internal 1 0, 1), (Terminal 0, 1)]),
       (Internal 1 0, [(Internal 2 0, 1), (Terminal 1, 1)]),
       (Internal 2 0, [(Terminal 1, 1)]),
       (Terminal 0, []), (Terminal 1, [])]
      [(Internal 0 0, []), (Internal 1 0, [Internal 0 0]), (Terminal 0, [Internal 0 0]),
       (Internal 2 0, [Internal 1 0]), (Terminal 1, [Internal 1 0, Internal 2 0])]
      []"

definition ex_triangle_once :: "(rat \<Rightarrow> rat) \<Rightarrow> nat graph" where
  "ex_triangle_once rnd = graph_of
      [Internal 0 0, Internal 1 0, Terminal 0, Terminal 1]
      [(Internal 0 0, [(Internal 1 0, 1), (Terminal 0, 1)]),
       (Internal 1 0, [(Terminal 1, rnd 2)]), (Terminal 0, []), (Terminal 1, [])]
      [(Internal 0 0, []), (Internal 1 0, [Internal 0 0]),
       (Terminal 0, [Internal 0 0]), (Terminal 1, [Internal 1 0])]
      []"

definition ex_triangle_twice :: "(rat \<Rightarrow> rat) \<Rightarrow> nat graph" where
  "ex_triangle_twice rnd = graph_of
      [Internal 0 0, Terminal 0, Terminal 1]
      [(Internal 0 0, [(Terminal 0, 1), (Terminal 1, rnd (1 + rnd 2))]),
       (Terminal 0, []), (Terminal 1, [])]
      [(Internal 0 0, []), (Terminal 0, [Internal 0 0]), (Terminal 1, [Internal 0 0])]
      []"

section \<open>Containment indices: correctness\<close>

lemma overlap_count_Cons:
  "overlap_count (x # xs) (y # ys) = (if x \<and> y then 1 else 0) + overlap_count xs ys"
proof -
  let ?S = "{k. k < length xs \<and> xs ! k \<and> ys ! k}"
  have fin: "finite ?S" by simp
  have split: "{k. k < length (x # xs) \<and> (x # xs) ! k \<and> (y # ys) ! k}
        = (if x \<and> y then {0} else {}) \<union> Suc ` ?S"
  proof (rule set_eqI)
    fix k
    show "k \<in> {k. k < length (x # xs) \<and> (x # xs) ! k \<and> (y # ys) ! k}
            \<longleftrightarrow> k \<in> (if x \<and> y then {0} else {}) \<union> Suc ` ?S"
      by (cases k) auto
  qed
  have card_img: "card (Suc ` ?S) = card ?S"
    by (rule card_image) simp
  have disj: "(if x \<and> y then {0::nat} else {}) \<inter> Suc ` ?S = {}"
    by auto
  show ?thesis
    unfolding overlap_count_def split using card_Un_disjoint [OF _ _ disj] fin card_img by simp
qed

lemma overlap_count_le: "length a = length b \<Longrightarrow> overlap_count a b \<le> length a"
proof (induction a arbitrary: b)
  case Nil
  then show ?case by (simp add: overlap_count_def)
next
  case (Cons x xs)
  then obtain y ys where b: "b = y # ys" and len: "length xs = length ys"
    by (cases b) auto
  show ?case using Cons.IH [OF len] by (simp add: b overlap_count_Cons)
qed

lemma fold_dot_exact:
  assumes "exact_upto rnd N" and "length a = length b" and "m + length a \<le> N"
  shows "fold (\<lambda>(x, y) acc. rnd (acc + rnd (x * y))) (zip (astype_float a) (astype_float b))
           (of_nat m) = of_nat (m + overlap_count a b)"
  using assms(2,3)
proof (induction a arbitrary: b m)
  case Nil
  then show ?case by (simp add: astype_float_def overlap_count_def)
next
  case (Cons x xs)
  then obtain y ys where b: "b = y # ys" and len: "length xs = length ys"
    by (cases b) auto
  let ?p = "if x \<and> y then 1 else 0 :: nat"
  have r0: "rnd 0 = 0" and r1: "rnd 1 = 1"
    using assms(1) Cons.prems(2) unfolding exact_upto_def
    by (metis of_nat_0 le0, metis of_nat_1 Suc_leI length_Cons add_Suc_right le_add2 le_trans One_nat_def zero_less_Suc)
  have prod: "rnd ((if x then 1 else 0) * (if y then 1 else 0)) = of_nat ?p"
    using r0 r1 by simp
  have le: "m + ?p \<le> N" using Cons.prems(2) by simp
  have step: "rnd (of_nat m + of_nat ?p) = of_nat (m + ?p)"
    using assms(1) le unfolding exact_upto_def by (metis of_nat_add)
  have bound: "(m + ?p) + length xs \<le> N" using Cons.prems(2) by simp
  have "fold (\<lambda>(x, y) acc. rnd (acc + rnd (x * y)))
          (zip (astype_float (x # xs)) (astype_float (y # ys))) (of_nat m)
        = fold (\<lambda>(x, y) acc. rnd (acc + rnd (x * y)))
          (zip (astype_float xs) (astype_float ys)) (of_nat (m + ?p))"
    using prod step by (simp add: astype_float_def)
  also have "\<dots> = of_nat ((m + ?p) + overlap_count xs ys)"
    by (rule Cons.IH [OF len bound])
  finally show ?case by (simp add: b overlap_count_Cons add.assoc)
qed

lemma dot_astype_float:
  assumes "exact_upto rnd N" and "length a = length b" and "length a \<le> N"
  shows "dot rnd (astype_float a) (astype_float b) = of_nat (overlap_count a b)"
  using fold_dot_exact [OF assms(1,2), of 0] assms(3) by (simp add: dot_def)

lemma count_nonzero_card:
  "count_nonzero a = card {k. k < length a \<and> a ! k}"
  unfolding count_nonzero_def by (simp add: length_filter_conv_card)

lemma count_nonzero_le: "count_nonzero a \<le> length a"
  unfolding count_nonzero_def by simp

lemma dot_count_zero:
  assumes "exact_upto rnd N" and "length a = length b" and "length a \<le> N"
      and "count_nonzero a = 0"
  shows "dot rnd (astype_float a) (astype_float b) = 0"
proof -
  have "{k. k < length a \<and> a ! k} = {}"
    using assms(4) unfolding count_nonzero_card by simp
  then have "{k. k < length a \<and> a ! k \<and> b ! k} = {}" by blast
  then show ?thesis using dot_astype_float [OF assms(1,2,3)] by (simp add: overlap_count_def)
qed

text \<open>
  C1. For boolean matrices A (m by n) and B (k by n) in which every row of A has a true
  entry, \<^verbatim>\<open>containment_indices_boolean(A, B)\<close> returns a matrix CI with one row per row of
  A and one column per row of B, and CI[i, j] is the number of positions where A[i] and
  B[j] are both true divided by the number of true entries of A[i]: both counts are computed
  without any rounding error, for rows of at most N entries and a rounding that is exact up to
  N (\<open>2^53\<close> for float64), and CI[i, j] is their quotient rounded once, the float nearest
  to the exact quotient.
\<close>

theorem containment_indices_boolean_correct:
  assumes "\<forall>a \<in> set A. length a = n" and "\<forall>b \<in> set B. length b = n"
      and "\<forall>a \<in> set A. count_nonzero a \<noteq> 0"
      and "n \<le> N" and "\<forall>k \<le> N. rnd (of_nat k) = of_nat k"
  shows "\<exists>CI. containment_indices_boolean rnd A B = Inr CI \<and> length CI = length A \<and>
           (\<forall>i < length A. length (CI ! i) = length B \<and>
              (\<forall>j < length B. CI ! i ! j =
                 Fin (rnd (of_nat (card {k. k < n \<and> A ! i ! k \<and> B ! j ! k}) /
                           of_nat (card {k. k < n \<and> A ! i ! k})))))"
proof -
  have ex: "exact_upto rnd N" using assms(5) by (simp add: exact_upto_def)
  have shape: "\<not> (\<exists>a \<in> set A. \<exists>b \<in> set B. length a \<noteq> length b)"
    using assms(1,2) by auto
  let ?CI = "map (\<lambda>a. map (\<lambda>b. np_divide rnd (dot rnd (astype_float a) (astype_float b))
                                            (count_nonzero a)) B) A"
  have eq: "containment_indices_boolean rnd A B = Inr ?CI"
    unfolding containment_indices_boolean_def using shape by simp
  have entry: "?CI ! i ! j =
        Fin (rnd (of_nat (card {k. k < n \<and> A ! i ! k \<and> B ! j ! k}) /
                  of_nat (card {k. k < n \<and> A ! i ! k})))"
    if i: "i < length A" and j: "j < length B" for i j
  proof -
    have la: "length (A ! i) = n" and lb: "length (B ! j) = n"
      using assms(1,2) i j by auto
    have nz: "count_nonzero (A ! i) \<noteq> 0" using assms(3) i by auto
    have cle: "count_nonzero (A ! i) \<le> N"
      using count_nonzero_le [of "A ! i"] la assms(4) by simp
    have conv: "rnd (of_nat (count_nonzero (A ! i))) = of_nat (count_nonzero (A ! i))"
      using assms(5) cle by simp
    have d: "dot rnd (astype_float (A ! i)) (astype_float (B ! j))
               = of_nat (overlap_count (A ! i) (B ! j))"
      using dot_astype_float [OF ex, of "A ! i" "B ! j"] la lb assms(4) by simp
    have "?CI ! i ! j = np_divide rnd (dot rnd (astype_float (A ! i)) (astype_float (B ! j)))
                                   (count_nonzero (A ! i))"
      using i j by simp
    also have "\<dots> = Fin (rnd (of_nat (overlap_count (A ! i) (B ! j)) /
                              of_nat (count_nonzero (A ! i))))"
      using nz conv d by (simp add: np_divide_def)
    also have "\<dots> = Fin (rnd (of_nat (card {k. k < n \<and> A ! i ! k \<and> B ! j ! k}) /
                              of_nat (card {k. k < n \<and> A ! i ! k})))"
      using la by (simp add: count_nonzero_card overlap_count_def)
    finally show ?thesis .
  qed
  show ?thesis
    using eq entry by (intro exI [of _ ?CI]) simp
qed

lemma quarters_nat: "quarters (of_nat k) = of_nat k"
proof -
  have "(of_nat k :: rat) * 4 = of_int (int k * 4)" by simp
  then have "\<lfloor>(of_nat k :: rat) * 4\<rfloor> = int k * 4" by (metis floor_of_int)
  then show ?thesis by (simp add: quarters_def)
qed

theorem containment_indices_boolean_correct_witness:
  "containment_indices_boolean quarters [[True, True, True], [False, True, True]]
                               [[True, False, False], [False, False, True]]
     = Inr [[Fin (1 / 4), Fin (1 / 4)], [Fin 0, Fin (1 / 2)]]"
proof -
  let ?A = "[[True, True, True], [False, True, True]]"
  let ?B = "[[True, False, False], [False, False, True]]"
  have a: "\<forall>a \<in> set ?A. length a = 3" by simp
  have b: "\<forall>b \<in> set ?B. length b = 3" by simp
  have c: "\<forall>a \<in> set ?A. count_nonzero a \<noteq> 0" by (simp add: count_nonzero_def)
  have r: "\<forall>k \<le> 3. quarters (of_nat k) = of_nat k" by (simp add: quarters_nat)
  have f: "\<lfloor>(4::rat) / 3\<rfloor> = 1" by (simp add: floor_eq_iff)
  from containment_indices_boolean_correct [OF a b c order_refl r]
  obtain CI where "containment_indices_boolean quarters ?A ?B = Inr CI" by blast
  then show ?thesis
    by (simp add: containment_indices_boolean_def np_divide_def dot_def astype_float_def
                  count_nonzero_def quarters_def f)
qed


section \<open>The terminals setter on a numpy array\<close>

text \<open>
  C10. For every numpy ndarray passed as the terminals argument, \<^verbatim>\<open>set_terminals\<close> binds
  its local variable in no branch, so the call raises UnboundLocalError at the size check,
  whatever the length of the array: it neither accepts the array nor raises the ValueError
  of the size mismatch.
\<close>

theorem set_terminals_ndarray_unbound:
  "set_terminals_local arange n (NdArray xs) = None \<and>
   set_terminals arange n (NdArray xs) = Inl (UnboundLocalError ''terminals'')"
  by (simp add: set_terminals_def set_terminals_local_def)

section \<open>Additional edges in \<^verbatim>\<open>pick\<close>\<close>















section \<open>The edges of the initial graph\<close>


lemma weight_Some: "map_of (succ G u) v = Some w \<Longrightarrow> weight G u v = w"
  by (simp add: weight_def)












lemma pair_state_swap: "pair_state G j i = prod.swap (pair_state G i j)"
  by (simp add: pair_state_def)












section \<open>Depths\<close>













section \<open>Evaluation on graphs given by their lists\<close>

lemma lookup_Nil: "lookup [] k = []"
  by (simp add: lookup_def)

lemma lookup_Cons: "lookup ((a, x) # al) k = (if k = a then x else lookup al k)"
  by (simp add: lookup_def)

lemma olookup_Nil: "olookup [] k = None"
  by (simp add: olookup_def)

lemma olookup_Cons: "olookup ((a, x) # al) k = (if k = a then Some x else olookup al k)"
  by (simp add: olookup_def)

lemma lookup_update: "(lookup al)(k := x) = lookup (AList.update k x al)"
  by (rule ext) (simp add: lookup_def update_conv')

lemma graph_of_sel:
  "nodes (graph_of ns sl pl dl) = ns"
  "succ (graph_of ns sl pl dl) = lookup sl"
  "pred (graph_of ns sl pl dl) = lookup pl"
  "depth (graph_of ns sl pl dl) = olookup dl"
  by (simp_all add: graph_of_def)

lemma empty_graph_of: "empty_graph = graph_of [] [] [] []"
  by (simp add: empty_graph_def graph_of_def lookup_def olookup_def fun_eq_iff)

lemma add_node_graph_of:
  "add_node (graph_of ns sl pl dl) n =
     (if n \<in> set ns then graph_of ns sl pl dl
      else graph_of (ns @ [n]) (AList.update n [] sl) (AList.update n [] pl) (AList.delete n dl))"
  by (simp add: add_node_def graph_of_def lookup_update [symmetric] olookup_def delete_conv')

lemma add_edge_set_edge: "add_edge G u v w = set_edge (add_node (add_node G u) v) u v w"
  by (simp add: add_edge_def set_edge_def Let_def)

lemma set_edge_graph_of:
  "set_edge (graph_of ns sl pl dl) u v w =
     graph_of ns (AList.update u (AList.update v w (lookup sl u)) sl)
       (AList.update v (if u \<in> set (lookup pl v) then lookup pl v else lookup pl v @ [u]) pl) dl"
  by (simp add: set_edge_def graph_of_def lookup_update [symmetric])

lemma del_edge_graph_of:
  "del_edge (graph_of ns sl pl dl) u v =
     graph_of ns (AList.update u (AList.delete v (lookup sl u)) sl)
       (AList.update v (removeAll u (lookup pl v)) pl) dl"
  by (simp add: del_edge_def graph_of_def lookup_update [symmetric])

lemma del_node_graph_of:
  "del_node (graph_of ns sl pl dl) n =
     graph_of (removeAll n ns)
       (map (\<lambda>(u, l). (u, AList.delete n l)) (AList.delete n sl))
       (map (\<lambda>(v, l). (v, removeAll n l)) (AList.delete n pl))
       (AList.delete n dl)"
proof -
  have s: "lookup (map (\<lambda>(u, l). (u, AList.delete n l)) (AList.delete n sl)) u =
        (if u = n then [] else AList.delete n (lookup sl u))" for u
    by (induction sl) (auto simp: lookup_def)
  have p: "lookup (map (\<lambda>(v, l). (v, removeAll n l)) (AList.delete n pl)) v =
        (if v = n then [] else removeAll n (lookup pl v))" for v
    by (induction pl) (auto simp: lookup_def)
  show ?thesis
    by (simp add: del_node_def graph_of_def s p fun_eq_iff delete_conv' olookup_def)
qed

lemma set_depth_graph_of:
  "(graph_of ns sl pl dl)\<lparr>depth := (olookup dl)(c \<mapsto> d)\<rparr> = graph_of ns sl pl (AList.update c d dl)"
  by (simp add: graph_of_def olookup_def update_conv')

lemmas graph_of_eval =
  lookup_Nil lookup_Cons olookup_Nil olookup_Cons graph_of_sel
  empty_graph_of add_node_graph_of add_edge_set_edge set_edge_graph_of del_edge_graph_of
  del_node_graph_of set_depth_graph_of
  successors_def predecessors_def in_degree_def out_degree_def weight_def
  has_edge_def get_root_def internal_nodes_def discard_edge_def remove_edges_from_def

lemmas prune_eval = prune_def prune_step_def remove_dead_ends.simps traverse_topdown_def
  single_branch_def collapse_def Let_def

section \<open>Pruning twice\<close>

text \<open>
  C6. \<^verbatim>\<open>prune\<close> is not idempotent, under either policy. Under the default policy,
  pruning \<open>ex_branch\<close> collapses \<^verbatim>\<open>(3, 0)\<close> into \<^verbatim>\<open>(1, 0)\<close>, which the traversal has
  passed by then; \<^verbatim>\<open>(1, 0)\<close> is left with one parent and one internal child, a single
  branch by the test of \<^verbatim>\<open>prune\<close> itself, and pruning the result removes it. Under the
  strict policy, pruning \<open>ex_triangle\<close> collapses \<^verbatim>\<open>(2, 0)\<close> and leaves \<^verbatim>\<open>(1, 0)\<close> with
  one parent and one child, and pruning the result removes it.
\<close>

theorem prune_not_idempotent:
  "prune rnd False ex_branch = Inr (ex_branch_once rnd) \<and>
   prune rnd False (ex_branch_once rnd) = Inr (ex_branch_twice rnd) \<and>
   nodes (ex_branch_once rnd) \<noteq> nodes (ex_branch_twice rnd) \<and>
   prune rnd True ex_triangle = Inr (ex_triangle_once rnd) \<and>
   prune rnd True (ex_triangle_once rnd) = Inr (ex_triangle_twice rnd) \<and>
   nodes (ex_triangle_once rnd) \<noteq> nodes (ex_triangle_twice rnd)"
proof -
  have 1: "prune rnd False ex_branch = Inr (ex_branch_once rnd)"
    by (simp add: ex_branch_def ex_branch_once_def graph_of_eval prune_eval)
  have 2: "prune rnd False (ex_branch_once rnd) = Inr (ex_branch_twice rnd)"
    by (simp add: ex_branch_once_def ex_branch_twice_def graph_of_eval prune_eval)
  have 3: "nodes (ex_branch_once rnd) \<noteq> nodes (ex_branch_twice rnd)"
    by (simp add: ex_branch_once_def ex_branch_twice_def graph_of_sel)
  have 4: "prune rnd True ex_triangle = Inr (ex_triangle_once rnd)"
    by (simp add: ex_triangle_def ex_triangle_once_def graph_of_eval prune_eval)
  have 5: "prune rnd True (ex_triangle_once rnd) = Inr (ex_triangle_twice rnd)"
    by (simp add: ex_triangle_once_def ex_triangle_twice_def graph_of_eval prune_eval)
  have 6: "nodes (ex_triangle_once rnd) \<noteq> nodes (ex_triangle_twice rnd)"
    by (simp add: ex_triangle_once_def ex_triangle_twice_def graph_of_sel)
  from 1 2 3 4 5 6 show ?thesis by simp
qed

end
